theory Spec2Isabelle
  imports Main "HOL-Library.AList"
begin

section \<open>Python strings and built-ins used by the node\<close>

text \<open>
  A Python \<open>str\<close> is modelled as a \<open>string\<close> whose characters are the code points
  0..255 (the Latin-1 block of Unicode); \<open>of_char c\<close> is the code point. The built-ins
  below are the CPython ones restricted to these code points. \<open>int()\<close> is modelled
  with unbounded integers and without the interpreter's configurable limit on the
  number of digits of a literal.
\<close>

definition is_digit :: "char \<Rightarrow> bool" where
  "is_digit c \<longleftrightarrow> c \<in> set ''0123456789''"

definition digit_val :: "char \<Rightarrow> nat" where
  "digit_val c = of_char c - 48"

text \<open>The decimal value of a run of digits, most significant digit first.\<close>

definition digits_value :: "string \<Rightarrow> nat" where
  "digits_value ds = foldl (\<lambda>acc c. 10 * acc + digit_val c) 0 ds"

text \<open>\<open>str.isspace\<close> on one code point (used by \<open>str.strip\<close>).\<close>

definition uni_isspace :: "char \<Rightarrow> bool" where
  "uni_isspace c \<longleftrightarrow> (of_char c :: nat) \<in> {9, 10, 11, 12, 13, 28, 29, 30, 31, 32, 133, 160}"

text \<open>The ASCII white space that the integer parser skips around a literal.\<close>

definition ascii_isspace :: "char \<Rightarrow> bool" where
  "ascii_isspace c \<longleftrightarrow> (of_char c :: nat) \<in> {9, 10, 11, 12, 13, 32}"

definition lower_char :: "char \<Rightarrow> char" where
  "lower_char c =
     (let n = (of_char c :: nat)
      in if (65 \<le> n \<and> n \<le> 90) \<or> (192 \<le> n \<and> n \<le> 222 \<and> n \<noteq> 215)
         then char_of (n + 32) else c)"

text \<open>\<open>s.lower()\<close>\<close>

definition lower :: "string \<Rightarrow> string" where
  "lower s = map lower_char s"

text \<open>\<open>s.strip()\<close>\<close>

definition strip :: "string \<Rightarrow> string" where
  "strip s = rev (dropWhile uni_isspace (rev (dropWhile uni_isspace s)))"

text \<open>\<open>s.split(sep)\<close> for a separator of one character.\<close>

fun split_on :: "char \<Rightarrow> string \<Rightarrow> string list" where
  "split_on sep [] = [[]]"
| "split_on sep (c # cs) =
     (if c = sep then [] # split_on sep cs
      else (case split_on sep cs of
              p # ps \<Rightarrow> (c # p) # ps
            | [] \<Rightarrow> [[c]]))"

text \<open>
  \<open>int(s)\<close> for a \<open>str\<close>, base 10. The string is first brought to ASCII: a code
  point below 127 stays, other white space becomes a blank, and the first other
  character becomes \<open>?\<close> and ends the buffer. The parser then skips white space, reads
  an optional sign, refuses a leading underscore, reads digits with single
  underscores between them, skips white space and must be at the end. \<open>None\<close> is
  \<open>ValueError\<close>.
\<close>

fun transform_decimal_and_space :: "string \<Rightarrow> string" where
  "transform_decimal_and_space [] = []"
| "transform_decimal_and_space (c # cs) =
     (if (of_char c :: nat) < 127 then c # transform_decimal_and_space cs
      else if uni_isspace c then CHR '' '' # transform_decimal_and_space cs
      else [CHR ''?''])"

text \<open>The underscore discipline of the digit run; the first argument is the previous character.\<close>

fun scan_digits :: "char \<Rightarrow> string \<Rightarrow> bool" where
  "scan_digits prev [] = (prev \<noteq> CHR ''_'')"
| "scan_digits prev (c # cs) =
     (if c = CHR ''_'' \<and> prev = CHR ''_'' then False else scan_digits c cs)"

definition in_run :: "char \<Rightarrow> bool" where
  "in_run c \<longleftrightarrow> is_digit c \<or> c = CHR ''_''"

definition py_int :: "string \<Rightarrow> int option" where
  "py_int u =
     (let s0 = dropWhile ascii_isspace (transform_decimal_and_space u);
          sgn = (case s0 of c # _ \<Rightarrow> if c = CHR ''-'' then - 1 else 1 | [] \<Rightarrow> (1 :: int));
          s1 = (case s0 of c # r \<Rightarrow> if c = CHR ''+'' \<or> c = CHR ''-'' then r else s0 | [] \<Rightarrow> s0);
          run = takeWhile in_run s1;
          rest = dropWhile in_run s1
      in if (case s1 of c # _ \<Rightarrow> c = CHR ''_'' | [] \<Rightarrow> False) then None
         else if \<not> scan_digits (CHR 0x00) run then None
         else if run = [] then None
         else if dropWhile ascii_isspace rest \<noteq> [] then None
         else Some (sgn * int (digits_value (filter is_digit run))))"

text \<open>\<open>str(n)\<close> for an \<open>int\<close>: decimal digits, with a minus sign when negative.\<close>

definition digit_char :: "nat \<Rightarrow> char" where
  "digit_char d = ''0123456789'' ! d"

fun str_of_nat :: "nat \<Rightarrow> string" where
  "str_of_nat n =
     (if n < 10 then [digit_char n] else str_of_nat (n div 10) @ [digit_char (n mod 10)])"

declare str_of_nat.simps [simp del]

definition str_of_int :: "int \<Rightarrow> string" where
  "str_of_int i = (if i < 0 then CHR ''-'' # str_of_nat (nat (- i)) else str_of_nat (nat i))"

section \<open>The node\<close>

definition SERVICE :: string where
  "SERVICE = ''Google_Maps''"

definition API_KEY_ENV_VAR :: string where
  "API_KEY_ENV_VAR = ''GOOGLE_MAPS_API_KEY''"

definition BASE_URL :: string where
  "BASE_URL = ''https://maps.googleapis.com/maps/api/streetview''"

text \<open>
  Exceptions carry their message; \<open>str(e)\<close> is \<open>exn_str e\<close>. \<open>OtherError\<close> is any
  other subclass of \<open>Exception\<close> (a connection error, a timeout, an I/O error).
  \<open>KeyboardInterrupt\<close> and \<open>SystemExit\<close> derive from \<open>BaseException\<close> only:
  \<open>except Exception\<close> does not catch them.
\<close>

datatype exn =
    ValueError string
  | TypeError string
  | RuntimeError string
  | OtherError string
  | KeyboardInterrupt
  | SystemExit string

fun exn_str :: "exn \<Rightarrow> string" where
  "exn_str (ValueError m) = m"
| "exn_str (TypeError m) = m"
| "exn_str (RuntimeError m) = m"
| "exn_str (OtherError m) = m"
| "exn_str KeyboardInterrupt = []"
| "exn_str (SystemExit m) = m"

text \<open>\<open>isinstance(e, Exception)\<close>\<close>

fun is_Exception :: "exn \<Rightarrow> bool" where
  "is_Exception KeyboardInterrupt = False"
| "is_Exception (SystemExit m) = False"
| "is_Exception e = True"

text \<open>
  What the node reads from its host: the configured API key
  (\<open>get_config_value\<close>) and its parameter values (\<open>get_parameter_value\<close>).
  \<open>address\<close> and \<open>heading\<close> have no default and may be \<open>None\<close>;
  \<open>size_param\<close> is the parameter \<open>size\<close>.
\<close>

record node =
  api_key :: "string option"
  address :: "string option"
  size_param :: "string option"
  heading :: "int option"
  fov :: int
  pitch :: int
  radius :: int
  source :: string
  return_error_code :: bool

text \<open>The parameter defaults that the constructor declares (no key configured, no address).\<close>

definition default_node :: node where
  "default_node =
     \<lparr>api_key = None, address = None, size_param = Some ''600x400'', heading = None,
      fov = 90, pitch = 0, radius = 50, source = ''default'', return_error_code = True\<rparr>"

subsection \<open>Validation\<close>

definition validate_size_format :: "string \<Rightarrow> bool" where
  "validate_size_format sz =
     (if CHR ''x'' \<notin> set (lower sz) then False
      else (case split_on CHR ''x'' (lower sz) of
              [width, height] \<Rightarrow>
                (case py_int width of
                   None \<Rightarrow> False
                 | Some w \<Rightarrow>
                     (case py_int height of
                        None \<Rightarrow> False
                      | Some h \<Rightarrow> w > 0 \<and> h > 0 \<and> w \<le> 640 \<and> h \<le> 640))
            | _ \<Rightarrow> False))"

definition key_error :: exn where
  "key_error = ValueError (''Google Maps API key not found. Please set the '' @ API_KEY_ENV_VAR
                           @ '' environment variable.'')"

definition address_error :: exn where
  "address_error = ValueError ''Address is required.''"

definition size_error :: exn where
  "size_error = ValueError ''Invalid size format. Use 'widthxheight' (e.g., '600x400').''"

text \<open>The three checks of \<open>validate_node\<close>, each the condition of one \<open>if\<close>.\<close>

definition key_missing :: "node \<Rightarrow> bool" where
  "key_missing n = (case api_key n of None \<Rightarrow> True | Some k \<Rightarrow> k = [])"

definition address_missing :: "node \<Rightarrow> bool" where
  "address_missing n = (case address n of None \<Rightarrow> True | Some a \<Rightarrow> a = [] \<or> strip a = [])"

definition size_invalid :: "node \<Rightarrow> bool" where
  "size_invalid n = (case size_param n of None \<Rightarrow> False | Some s \<Rightarrow> s \<noteq> [] \<and> \<not> validate_size_format s)"

definition validate_node :: "node \<Rightarrow> exn list option" where
  "validate_node n =
     (let errors = [];
          errors = (if key_missing n then errors @ [key_error] else errors);
          errors = (if address_missing n then errors @ [address_error] else errors);
          errors = (if size_invalid n then errors @ [size_error] else errors)
      in if errors \<noteq> [] then Some errors else None)"

text \<open>
  The shape that the specification gives for a size string, \<open>^\d+x\d+$\<close>: a non-empty
  run of digits, a lower-case \<open>x\<close>, a non-empty run of digits. This definition follows
  the specification's words; \<open>validate_size_format\<close> above is the code.
\<close>

definition spec_size_pattern :: "string \<Rightarrow> bool" where
  "spec_size_pattern s =
     (takeWhile is_digit s \<noteq> [] \<and>
      (case dropWhile is_digit s of
         [] \<Rightarrow> False
       | c # h \<Rightarrow> c = CHR ''x'' \<and> h \<noteq> [] \<and> list_all is_digit h))"





subsection \<open>Building the request URL\<close>

text \<open>The values held by the \<open>params\<close> dictionary, and their rendering in an f-string.\<close>

datatype pyval = PyNone | PyStr string | PyInt int

fun format_val :: "pyval \<Rightarrow> string" where
  "format_val PyNone = ''None''"
| "format_val (PyStr s) = s"
| "format_val (PyInt i) = str_of_int i"

definition of_opt :: "string option \<Rightarrow> pyval" where
  "of_opt x = (case x of None \<Rightarrow> PyNone | Some s \<Rightarrow> PyStr s)"

text \<open>
  \<open>urllib.parse.quote\<close> with its default arguments: the string is encoded in UTF-8 and
  every byte that is not a letter, a digit or one of \<open>_.-~/\<close> becomes \<open>%XX\<close>. An
  argument that is not a string raises \<open>TypeError\<close>.
\<close>

definition always_safe :: "char \<Rightarrow> bool" where
  "always_safe c \<longleftrightarrow>
     c \<in> set ''ABCDEFGHIJKLMNOPQRSTUVWXYZabcdefghijklmnopqrstuvwxyz0123456789_.-~''"

definition hex_digit :: "nat \<Rightarrow> char" where
  "hex_digit d = ''0123456789ABCDEF'' ! d"

definition utf8_encode_char :: "char \<Rightarrow> string" where
  "utf8_encode_char c =
     (let n = (of_char c :: nat)
      in if n < 128 then [c] else [char_of (192 + n div 64), char_of (128 + n mod 64)])"

definition quote_byte :: "char \<Rightarrow> string" where
  "quote_byte b =
     (if always_safe b \<or> b = CHR ''/'' then [b]
      else [CHR ''%'', hex_digit (of_char b div 16), hex_digit (of_char b mod 16)])"

definition quote :: "string \<Rightarrow> string" where
  "quote s = concat (map quote_byte (concat (map utf8_encode_char s)))"

fun quote_val :: "pyval \<Rightarrow> exn + string" where
  "quote_val (PyStr s) = Inr (quote s)"
| "quote_val v = Inl (TypeError ''quote_from_bytes() expected bytes'')"

text \<open>\<open>sep.join(xs)\<close>\<close>

fun join :: "string \<Rightarrow> string list \<Rightarrow> string" where
  "join sep [] = []"
| "join sep [x] = x"
| "join sep (x # y # ys) = x @ sep @ join sep (y # ys)"

text \<open>
  The \<open>params\<close> dictionary as an association list in insertion order;
  \<open>AList.update\<close> is the dictionary's item assignment (an existing key keeps its
  place, a new key goes to the end). \<open>build_params\<close> is the dictionary before the
  address is quoted.
\<close>

definition build_params :: "node \<Rightarrow> (string \<times> pyval) list" where
  "build_params n =
     (let params = [(''location'', of_opt (address n)),
                    (''size'', of_opt (size_param n)),
                    (''key'', of_opt (api_key n))];
          params = (case heading n of
                      Some h \<Rightarrow> AList.update ''heading'' (PyInt h) params
                    | None \<Rightarrow> params);
          params = (if fov n \<noteq> 90 then AList.update ''fov'' (PyInt (fov n)) params else params);
          params = (if pitch n \<noteq> 0 then AList.update ''pitch'' (PyInt (pitch n)) params else params);
          params = (if radius n \<noteq> 50 then AList.update ''radius'' (PyInt (radius n)) params
                    else params);
          params = (if source n \<noteq> ''default'' then AList.update ''source'' (PyStr (source n)) params
                    else params);
          params = (if return_error_code n
                    then AList.update ''return_error_code'' (PyStr ''true'') params else params)
      in params)"

text \<open>The dictionary that is joined: \<open>location\<close> replaced by its quoted form.\<close>

definition quoted_params :: "node \<Rightarrow> exn + (string \<times> pyval) list" where
  "quoted_params n =
     (let params = build_params n
      in case map_of params ''location'' of
           None \<Rightarrow> Inl (OtherError ''KeyError'')
         | Some v \<Rightarrow>
             (case quote_val v of
                Inl e \<Rightarrow> Inl e
              | Inr q \<Rightarrow> Inr (AList.update ''location'' (PyStr q) params)))"

definition entry :: "string \<times> pyval \<Rightarrow> string" where
  "entry kv = fst kv @ ''='' @ format_val (snd kv)"

definition build_request_url :: "node \<Rightarrow> exn + string" where
  "build_request_url n =
     (case quoted_params n of
        Inl e \<Rightarrow> Inl e
      | Inr params \<Rightarrow>
          (let param_string = join ''&'' (map entry params)
           in Inr (BASE_URL @ ''?'' @ param_string)))"

subsection \<open>Handling the response and running the node\<close>

text \<open>
  The collaborators of one execution: the clock, the HTTP client
  (\<open>requests.get(url, timeout=30)\<close>, which returns a response or raises) and the
  host's static file store (\<open>save_static_file\<close>, which returns a URL or raises).
  Either may raise any exception, also one outside \<open>Exception\<close>.
  The host's own calls (\<open>get_config_value\<close>, \<open>get_parameter_value\<close>,
  \<open>publish_update_to_parameter\<close>, the logger) are taken not to raise.
\<close>

record response =
  status_code :: int
  content :: string

record env =
  now :: int
  http_get :: "string \<Rightarrow> exn + response"
  save_static_file :: "string \<Rightarrow> string \<Rightarrow> exn + string"

datatype outval = ImageUrlArtifact string | Text string

text \<open>What one execution does to the outside, in order.\<close>

datatype event =
    HttpGet string
  | SaveFile string string
  | Publish string outval

definition handle_api_response :: "env \<Rightarrow> response \<Rightarrow> (exn + string) \<times> event list" where
  "handle_api_response ev r =
     (if status_code r = 404
        then (Inl (ValueError ''No Street View imagery available for this location.''), [])
      else if status_code r = 400
        then (Inl (ValueError ''Invalid request parameters.''), [])
      else if status_code r = 403
        then (Inl (ValueError ''API key invalid or quota exceeded.''), [])
      else if status_code r \<noteq> 200
        then (Inl (ValueError (''Street View API error: '' @ str_of_int (status_code r))), [])
      else (let image_data = content r;
                filename = ''streetview_'' @ str_of_int (now ev) @ ''.jpg''
            in (save_static_file ev image_data filename, [SaveFile image_data filename])))"

text \<open>The body of the \<open>except Exception\<close> branch: publish the status, then raise \<open>RuntimeError\<close>.\<close>

definition failure :: "exn \<Rightarrow> event list \<Rightarrow> (exn + outval) \<times> event list" where
  "failure e tr =
     (let error_msg = ''Failed to fetch Street View image: '' @ exn_str e
      in (Inl (RuntimeError error_msg), tr @ [Publish ''status'' (Text error_msg)]))"

text \<open>
  What happens to an exception raised inside the \<open>try\<close> block: an \<open>Exception\<close> is
  caught and handled by \<open>failure\<close>; anything else leaves the function as it is.
\<close>

definition on_raise :: "exn \<Rightarrow> event list \<Rightarrow> (exn + outval) \<times> event list" where
  "on_raise e tr = (if is_Exception e then failure e tr else (Inl e, tr))"

definition success_status :: "node \<Rightarrow> string" where
  "success_status n =
     ''Street View image fetched successfully for: '' @ format_val (of_opt (address n))"

definition fetch_street_view :: "env \<Rightarrow> node \<Rightarrow> (exn + outval) \<times> event list" where
  "fetch_street_view ev n =
     (case build_request_url n of
        Inl e \<Rightarrow> on_raise e []
      | Inr url \<Rightarrow>
          (case http_get ev url of
             Inl e \<Rightarrow> on_raise e [HttpGet url]
           | Inr resp \<Rightarrow>
               (case handle_api_response ev resp of
                  (Inl e, tr) \<Rightarrow> on_raise e (HttpGet url # tr)
                | (Inr image_url, tr) \<Rightarrow>
                    (let street_view_artifact = ImageUrlArtifact image_url
                     in (Inr street_view_artifact,
                         HttpGet url # tr @
                           [Publish ''street_view_image'' street_view_artifact,
                            Publish ''status'' (Text (success_status n))])))))"

text \<open>\<open>process\<close> yields \<open>fetch_street_view\<close>, which the host then runs once.\<close>

definition process :: "env \<Rightarrow> node \<Rightarrow> (exn + outval) \<times> event list" where
  "process ev n = fetch_street_view ev n"

text \<open>The values published to one output parameter, in order.\<close>

fun published :: "string \<Rightarrow> event list \<Rightarrow> outval list" where
  "published p [] = []"
| "published p (Publish q v # tr) = (if q = p then v # published p tr else published p tr)"
| "published p (_ # tr) = published p tr"

section \<open>Decimal rendering\<close>

lemma digit_val_digit_char: "d < 10 \<Longrightarrow> digit_val (digit_char d) = d"
  by (auto simp: digit_val_def digit_char_def less_Suc_eq numeral_eq_Suc)

lemma is_digit_digit_char: "d < 10 \<Longrightarrow> is_digit (digit_char d)"
  by (auto simp: is_digit_def digit_char_def less_Suc_eq numeral_eq_Suc)

lemma digits_value_snoc: "digits_value (ds @ [c]) = 10 * digits_value ds + digit_val c"
  by (simp add: digits_value_def)

text \<open>\<open>str_of_nat n\<close> is a run of digits whose decimal value is \<open>n\<close>.\<close>

lemma str_of_nat_decimal: "digits_value (str_of_nat n) = n"
proof (induction n rule: str_of_nat.induct)
  case (1 n)
  show ?case
  proof (cases "n < 10")
    case True
    then show ?thesis
      by (simp add: str_of_nat.simps [of n] digits_value_def digit_val_digit_char)
  next
    case False
    with 1 show ?thesis
      by (simp add: str_of_nat.simps [of n] digits_value_snoc digit_val_digit_char)
  qed
qed

lemma str_of_nat_digits: "list_all is_digit (str_of_nat n)"
proof (induction n rule: str_of_nat.induct)
  case (1 n)
  show ?case
  proof (cases "n < 10")
    case True
    then show ?thesis
      by (simp add: str_of_nat.simps [of n] is_digit_digit_char)
  next
    case False
    with 1 show ?thesis
      by (simp add: str_of_nat.simps [of n] is_digit_digit_char)
  qed
qed

lemma str_of_int_418: "str_of_int 418 = ''418''"
  by (simp add: str_of_int_def str_of_nat.simps digit_char_def)

lemma digit_char_nonzero: "0 < d \<Longrightarrow> d < 10 \<Longrightarrow> digit_char d \<noteq> CHR ''0''"
  by (auto simp add: digit_char_def less_Suc_eq numeral_eq_Suc)

lemma str_of_nat_nonempty: "str_of_nat n \<noteq> []"
  by (subst str_of_nat.simps) simp

lemma str_of_nat_no_leading_zero: "0 < n \<Longrightarrow> hd (str_of_nat n) \<noteq> CHR ''0''"
proof (induction n rule: str_of_nat.induct)
  case (1 n)
  show ?case
  proof (cases "n < 10")
    case True
    with "1.prems" show ?thesis
      by (simp add: str_of_nat.simps [of n] digit_char_nonzero)
  next
    case False
    then have "0 < n div 10"
      by simp
    with 1 False have "hd (str_of_nat (n div 10)) \<noteq> CHR ''0''"
      by simp
    with False show ?thesis
      by (simp add: str_of_nat.simps [of n] str_of_nat_nonempty)
  qed
qed

lemma str_of_nat_zero: "str_of_nat 0 = ''0''"
  by (simp add: str_of_nat.simps digit_char_def)

section \<open>The response classifier\<close>

text \<open>
  Claim C2, as stated, fails at 200: \<open>_handle_api_response\<close> does not only classify,
  it also saves the body through the host's file store, and when the store raises the
  result is that exception, not a success.
\<close>

theorem store_failure_at_200:
  "fst (handle_api_response
          \<lparr>now = 17, http_get = (\<lambda>u. Inl (OtherError ''unused'')),
           save_static_file = (\<lambda>b f. Inl (OtherError ''disk full''))\<rparr>
          \<lparr>status_code = 200, content = ''JPEGDATA''\<rparr>)
     = Inl (OtherError ''disk full'')"
  by (simp add: handle_api_response_def Let_def)

text \<open>
  Claim C2, amended. For every body \<open>b\<close>: at 200 exactly the bytes \<open>b\<close> are handed to
  the file store under the name \<open>streetview_<time>.jpg\<close> and the result is the store's
  answer, a success carrying the store's URL whenever the store returns one; 404, 400
  and 403 raise \<open>ValueError\<close> with the messages "No Street View imagery available for
  this location.", "Invalid request parameters." and "API key invalid or quota
  exceeded."; any other code \<open>c\<close> raises \<open>ValueError\<close> with "Street View API
  error: " followed by the decimal rendering of \<open>c\<close>. That rendering is never empty;
  for \<open>c \<ge> 0\<close> it is a run of digits whose decimal value is \<open>c\<close>, without a leading
  zero unless \<open>c = 0\<close>; for \<open>c < 0\<close> it is a minus sign followed by the rendering
  of \<open>-c\<close>; 418 is rendered "418".
\<close>

theorem handle_api_response_classifies:
  "handle_api_response ev \<lparr>status_code = 200, content = b\<rparr>
     = (save_static_file ev b (''streetview_'' @ str_of_int (now ev) @ ''.jpg''),
        [SaveFile b (''streetview_'' @ str_of_int (now ev) @ ''.jpg'')])
   \<and> (\<forall>u. save_static_file ev b (''streetview_'' @ str_of_int (now ev) @ ''.jpg'') = Inr u \<longrightarrow>
          fst (handle_api_response ev \<lparr>status_code = 200, content = b\<rparr>) = Inr u)
   \<and> handle_api_response ev \<lparr>status_code = 404, content = b\<rparr>
       = (Inl (ValueError ''No Street View imagery available for this location.''), [])
   \<and> handle_api_response ev \<lparr>status_code = 400, content = b\<rparr>
       = (Inl (ValueError ''Invalid request parameters.''), [])
   \<and> handle_api_response ev \<lparr>status_code = 403, content = b\<rparr>
       = (Inl (ValueError ''API key invalid or quota exceeded.''), [])
   \<and> (c \<noteq> 200 \<and> c \<noteq> 404 \<and> c \<noteq> 400 \<and> c \<noteq> 403 \<longrightarrow>
        handle_api_response ev \<lparr>status_code = c, content = b\<rparr>
          = (Inl (ValueError (''Street View API error: '' @ str_of_int c)), []))
   \<and> str_of_int c \<noteq> []
   \<and> (0 \<le> c \<longrightarrow> list_all is_digit (str_of_int c) \<and> int (digits_value (str_of_int c)) = c)
   \<and> (0 < c \<longrightarrow> hd (str_of_int c) \<noteq> CHR ''0'')
   \<and> (c = 0 \<longrightarrow> str_of_int c = ''0'')
   \<and> (c < 0 \<longrightarrow> str_of_int c = CHR ''-'' # str_of_int (- c))
   \<and> str_of_int 418 = ''418''"
proof -
  have r0: "str_of_int c \<noteq> []"
    by (simp add: str_of_int_def str_of_nat_nonempty)
  have r1: "list_all is_digit (str_of_int c) \<and> int (digits_value (str_of_int c)) = c" if "0 \<le> c"
    using that by (simp add: str_of_int_def str_of_nat_digits str_of_nat_decimal)
  have r2: "hd (str_of_int c) \<noteq> CHR ''0''" if "0 < c"
    using that by (simp add: str_of_int_def str_of_nat_no_leading_zero)
  have r3: "str_of_int c = ''0''" if "c = 0"
    using that by (simp add: str_of_int_def str_of_nat_zero)
  have r4: "str_of_int c = CHR ''-'' # str_of_int (- c)" if "c < 0"
    using that by (simp add: str_of_int_def)
  have h: "handle_api_response ev \<lparr>status_code = c, content = b\<rparr>
          = (Inl (ValueError (''Street View API error: '' @ str_of_int c)), [])"
    if "c \<noteq> 200 \<and> c \<noteq> 404 \<and> c \<noteq> 400 \<and> c \<noteq> 403"
    using that by (simp add: handle_api_response_def)
  have k: "handle_api_response ev \<lparr>status_code = 200, content = b\<rparr>
     = (save_static_file ev b (''streetview_'' @ str_of_int (now ev) @ ''.jpg''),
        [SaveFile b (''streetview_'' @ str_of_int (now ev) @ ''.jpg'')])"
    by (simp add: handle_api_response_def Let_def)
  have e: "handle_api_response ev \<lparr>status_code = 404, content = b\<rparr>
       = (Inl (ValueError ''No Street View imagery available for this location.''), [])"
    "handle_api_response ev \<lparr>status_code = 400, content = b\<rparr>
       = (Inl (ValueError ''Invalid request parameters.''), [])"
    "handle_api_response ev \<lparr>status_code = 403, content = b\<rparr>
       = (Inl (ValueError ''API key invalid or quota exceeded.''), [])"
    by (simp_all add: handle_api_response_def)
  from k have k': "\<forall>u. save_static_file ev b (''streetview_'' @ str_of_int (now ev) @ ''.jpg'') = Inr u \<longrightarrow>
          fst (handle_api_response ev \<lparr>status_code = 200, content = b\<rparr>) = Inr u"
    by simp
  show ?thesis
    using r0 r1 r2 r3 r4 h k k' e str_of_int_418 by blast
qed

theorem handle_api_response_classifies_witness:
  "fst (handle_api_response
          \<lparr>now = 17, http_get = (\<lambda>u. Inl (OtherError ''unused'')),
           save_static_file = (\<lambda>b f. Inr (''/static/'' @ f))\<rparr>
          \<lparr>status_code = 200, content = ''JPEGDATA''\<rparr>)
     = Inr ''/static/streetview_17.jpg''
   \<and> snd (handle_api_response
          \<lparr>now = 17, http_get = (\<lambda>u. Inl (OtherError ''unused'')),
           save_static_file = (\<lambda>b f. Inr (''/static/'' @ f))\<rparr>
          \<lparr>status_code = 200, content = ''JPEGDATA''\<rparr>)
     = [SaveFile ''JPEGDATA'' ''streetview_17.jpg'']
   \<and> handle_api_response
          \<lparr>now = 17, http_get = (\<lambda>u. Inl (OtherError ''unused'')),
           save_static_file = (\<lambda>b f. Inr (''/static/'' @ f))\<rparr>
          \<lparr>status_code = 418, content = []\<rparr>
     = (Inl (ValueError ''Street View API error: 418''), [])
   \<and> list_all is_digit (str_of_int 418) \<and> int (digits_value (str_of_int 418)) = 418
   \<and> hd (str_of_int 418) \<noteq> CHR ''0''
   \<and> str_of_int (- 7) = CHR ''-'' # str_of_int 7"
proof -
  let ?ev = "\<lparr>now = 17, http_get = (\<lambda>u. Inl (OtherError ''unused'')),
           save_static_file = (\<lambda>b f. Inr (''/static/'' @ f))\<rparr>"
  have n17: "str_of_int 17 = ''17''"
    by (simp add: str_of_int_def str_of_nat.simps digit_char_def)
  note a = handle_api_response_classifies [where ev = ?ev and b = "''JPEGDATA''" and c = 418]
  note b = handle_api_response_classifies [where ev = ?ev and b = "[]" and c = 418]
  note c = handle_api_response_classifies [where ev = ?ev and b = "[]" and c = "- 7"]
  have n: "(418::int) \<noteq> 200 \<and> (418::int) \<noteq> 404 \<and> (418::int) \<noteq> 400 \<and> (418::int) \<noteq> 403"
    "(0::int) \<le> 418" "(0::int) < 418" "(- 7 :: int) < 0"
    by simp_all
  have s: "save_static_file ?ev ''JPEGDATA'' (''streetview_'' @ str_of_int (now ?ev) @ ''.jpg'')
             = Inr ''/static/streetview_17.jpg''"
    by (simp add: n17)
  from a s have 1: "fst (handle_api_response ?ev \<lparr>status_code = 200, content = ''JPEGDATA''\<rparr>)
     = Inr ''/static/streetview_17.jpg''"
    by blast
  from a have "snd (handle_api_response ?ev \<lparr>status_code = 200, content = ''JPEGDATA''\<rparr>)
     = snd (save_static_file ?ev ''JPEGDATA'' (''streetview_'' @ str_of_int (now ?ev) @ ''.jpg''),
        [SaveFile ''JPEGDATA'' (''streetview_'' @ str_of_int (now ?ev) @ ''.jpg'')])"
    by (elim conjE) (erule arg_cong)
  then have k1: "snd (handle_api_response ?ev \<lparr>status_code = 200, content = ''JPEGDATA''\<rparr>)
     = [SaveFile ''JPEGDATA'' ''streetview_17.jpg'']"
    by (simp add: n17)
  from b n have "handle_api_response ?ev \<lparr>status_code = 418, content = []\<rparr>
     = (Inl (ValueError (''Street View API error: '' @ str_of_int 418)), [])"
    and e418: "str_of_int 418 = ''418''"
    by blast+
  then have 2: "handle_api_response ?ev \<lparr>status_code = 418, content = []\<rparr>
     = (Inl (ValueError ''Street View API error: 418''), [])"
    by simp
  from b n have 3: "list_all is_digit (str_of_int 418) \<and> int (digits_value (str_of_int 418)) = 418
     \<and> hd (str_of_int 418) \<noteq> CHR ''0''"
    by blast
  from c n have "str_of_int (- 7) = CHR ''-'' # str_of_int (- (- 7))"
    by blast
  then have 4: "str_of_int (- 7) = CHR ''-'' # str_of_int 7"
    by simp
  from 1 k1 2 3 4 show ?thesis
    by blast
qed

section \<open>The request builder\<close>

text \<open>
  The dictionary that \<open>_build_request_url\<close> fills is the three required entries
  followed by the optional ones that were added, in the order of the assignments.
\<close>

lemma build_params_eq:
  "build_params n =
     [(''location'', of_opt (address n)), (''size'', of_opt (size_param n)),
      (''key'', of_opt (api_key n))]
     @ (case heading n of None \<Rightarrow> [] | Some h \<Rightarrow> [(''heading'', PyInt h)])
     @ (if fov n \<noteq> 90 then [(''fov'', PyInt (fov n))] else [])
     @ (if pitch n \<noteq> 0 then [(''pitch'', PyInt (pitch n))] else [])
     @ (if radius n \<noteq> 50 then [(''radius'', PyInt (radius n))] else [])
     @ (if source n \<noteq> ''default'' then [(''source'', PyStr (source n))] else [])
     @ (if return_error_code n then [(''return_error_code'', PyStr ''true'')] else [])"
  by (simp add: build_params_def Let_def split: option.split)

lemma quoted_params_eq:
  "quoted_params n =
     (case address n of
        None \<Rightarrow> Inl (TypeError ''quote_from_bytes() expected bytes'')
      | Some a \<Rightarrow>
          Inr ([(''location'', PyStr (quote a)), (''size'', of_opt (size_param n)),
                (''key'', of_opt (api_key n))]
               @ (case heading n of None \<Rightarrow> [] | Some h \<Rightarrow> [(''heading'', PyInt h)])
               @ (if fov n \<noteq> 90 then [(''fov'', PyInt (fov n))] else [])
               @ (if pitch n \<noteq> 0 then [(''pitch'', PyInt (pitch n))] else [])
               @ (if radius n \<noteq> 50 then [(''radius'', PyInt (radius n))] else [])
               @ (if source n \<noteq> ''default'' then [(''source'', PyStr (source n))] else [])
               @ (if return_error_code n then [(''return_error_code'', PyStr ''true'')] else [])))"
  by (simp add: quoted_params_def build_params_eq of_opt_def split: option.split)

lemma join_Cons: "join sep (x # xs) = x @ concat (map (\<lambda>y. sep @ y) xs)"
  by (induction xs arbitrary: x) auto

lemma build_request_url_eq:
  "build_request_url n =
     (case address n of
        None \<Rightarrow> Inl (TypeError ''quote_from_bytes() expected bytes'')
      | Some a \<Rightarrow>
          Inr (BASE_URL @ ''?location='' @ quote a
               @ ''&size='' @ format_val (of_opt (size_param n))
               @ ''&key='' @ format_val (of_opt (api_key n))
               @ (case heading n of None \<Rightarrow> [] | Some h \<Rightarrow> ''&heading='' @ str_of_int h)
               @ (if fov n \<noteq> 90 then ''&fov='' @ str_of_int (fov n) else [])
               @ (if pitch n \<noteq> 0 then ''&pitch='' @ str_of_int (pitch n) else [])
               @ (if radius n \<noteq> 50 then ''&radius='' @ str_of_int (radius n) else [])
               @ (if source n \<noteq> ''default'' then ''&source='' @ source n else [])
               @ (if return_error_code n then ''&return_error_code=true'' else [])))"
  by (simp add: build_request_url_def quoted_params_eq join_Cons entry_def split: option.split)

text \<open>
  Claim C3. For every address \<open>a\<close>, size string \<open>s\<close> and credential \<open>k\<close>, with the
  heading absent, \<open>fov = 90\<close>, \<open>pitch = 0\<close>, \<open>radius = 50\<close>, \<open>source = "default"\<close> and
  \<open>return_error_code\<close> false, the URL is the base endpoint, \<open>?\<close>, and the three
  entries \<open>location\<close>, \<open>size\<close>, \<open>key\<close> joined by \<open>&\<close>; the joined dictionary has
  exactly these three keys.
\<close>

theorem build_request_url_defaults:
  "build_request_url
     \<lparr>api_key = Some k, address = Some a, size_param = Some s, heading = None,
      fov = 90, pitch = 0, radius = 50, source = ''default'', return_error_code = False\<rparr>
     = Inr (BASE_URL @ ''?'' @ ''location='' @ quote a @ ''&'' @ ''size='' @ s @ ''&'' @ ''key='' @ k)
   \<and> map_sum id (map fst)
       (quoted_params
          \<lparr>api_key = Some k, address = Some a, size_param = Some s, heading = None,
           fov = 90, pitch = 0, radius = 50, source = ''default'', return_error_code = False\<rparr>)
     = Inr [''location'', ''size'', ''key'']"
  by (simp add: build_request_url_eq quoted_params_eq of_opt_def)

text \<open>
  Claim C7. In the URL built for an address \<open>a\<close>, the \<open>location\<close> value is
  \<open>quote a\<close>, and every other value is the text of the parameter as it stands: the
  size and the key unchanged, the source unchanged, the integers as \<open>str\<close> renders
  them. \<open>quote\<close> does encode: a blank becomes \<open>%20\<close> and \<open>&\<close> becomes \<open>%26\<close>.
\<close>

theorem request_url_values_verbatim:
  "build_request_url (n\<lparr>address := Some a\<rparr>) =
     Inr (BASE_URL @ ''?location='' @ quote a
          @ ''&size='' @ (case size_param n of None \<Rightarrow> ''None'' | Some s \<Rightarrow> s)
          @ ''&key='' @ (case api_key n of None \<Rightarrow> ''None'' | Some k \<Rightarrow> k)
          @ (case heading n of None \<Rightarrow> [] | Some h \<Rightarrow> ''&heading='' @ str_of_int h)
          @ (if fov n \<noteq> 90 then ''&fov='' @ str_of_int (fov n) else [])
          @ (if pitch n \<noteq> 0 then ''&pitch='' @ str_of_int (pitch n) else [])
          @ (if radius n \<noteq> 50 then ''&radius='' @ str_of_int (radius n) else [])
          @ (if source n \<noteq> ''default'' then ''&source='' @ source n else [])
          @ (if return_error_code n then ''&return_error_code=true'' else []))
   \<and> quote ''a b&c'' = ''a%20b%26c''"
proof
  show "quote ''a b&c'' = ''a%20b%26c''"
    by code_simp
qed (simp add: build_request_url_eq of_opt_def split: option.split)

text \<open>
  Claim C4, as stated, fails for \<open>return_error_code\<close>: the parameter's declared
  default is \<open>True\<close>, and a node whose optional parameters are all at their declared
  defaults still sends \<open>return_error_code=true\<close>.
\<close>

theorem return_error_code_sent_at_default:
  "heading default_node = None \<and> fov default_node = 90 \<and> pitch default_node = 0
   \<and> radius default_node = 50 \<and> source default_node = ''default''
   \<and> return_error_code default_node = True
   \<and> build_request_url (default_node\<lparr>api_key := Some ''K'', address := Some ''a''\<rparr>)
       = Inr ''https://maps.googleapis.com/maps/api/streetview?location=a&size=600x400&key=K&return_error_code=true''"
  by (simp add: build_request_url_eq default_node_def of_opt_def BASE_URL_def) code_simp

text \<open>
  Claim C4, amended. The joined dictionary is \<open>location\<close>, \<open>size\<close>, \<open>key\<close> followed
  by the optional entries in the order \<open>heading\<close>, \<open>fov\<close>, \<open>pitch\<close>, \<open>radius\<close>,
  \<open>source\<close>, \<open>return_error_code\<close>, where \<open>heading\<close> is present exactly when it is
  set, \<open>fov\<close> when it is not 90, \<open>pitch\<close> when it is not 0, \<open>radius\<close> when it is not
  50, \<open>source\<close> when it is not "default", and \<open>return_error_code=true\<close> exactly when
  the flag is true. With \<open>fov = 60\<close> the dictionary has the one entry \<open>fov=60\<close>,
  right after the heading entry when the heading is set and otherwise right after
  \<open>key\<close>; the URL shows it at that place.
\<close>

theorem optional_entries_order:
  "quoted_params (n\<lparr>address := Some a\<rparr>) =
     Inr ([(''location'', PyStr (quote a)), (''size'', of_opt (size_param n)),
           (''key'', of_opt (api_key n))]
          @ (case heading n of None \<Rightarrow> [] | Some h \<Rightarrow> [(''heading'', PyInt h)])
          @ (if fov n \<noteq> 90 then [(''fov'', PyInt (fov n))] else [])
          @ (if pitch n \<noteq> 0 then [(''pitch'', PyInt (pitch n))] else [])
          @ (if radius n \<noteq> 50 then [(''radius'', PyInt (radius n))] else [])
          @ (if source n \<noteq> ''default'' then [(''source'', PyStr (source n))] else [])
          @ (if return_error_code n then [(''return_error_code'', PyStr ''true'')] else []))
   \<and> quoted_params (n\<lparr>address := Some a, fov := 60\<rparr>) =
     Inr ([(''location'', PyStr (quote a)), (''size'', of_opt (size_param n)),
           (''key'', of_opt (api_key n))]
          @ (case heading n of None \<Rightarrow> [] | Some h \<Rightarrow> [(''heading'', PyInt h)])
          @ [(''fov'', PyInt 60)]
          @ (if pitch n \<noteq> 0 then [(''pitch'', PyInt (pitch n))] else [])
          @ (if radius n \<noteq> 50 then [(''radius'', PyInt (radius n))] else [])
          @ (if source n \<noteq> ''default'' then [(''source'', PyStr (source n))] else [])
          @ (if return_error_code n then [(''return_error_code'', PyStr ''true'')] else []))
   \<and> map_sum id (filter (\<lambda>kv. fst kv = ''fov''))
        (quoted_params (n\<lparr>address := Some a, fov := 60\<rparr>)) = Inr [(''fov'', PyInt 60)]
   \<and> entry (''fov'', PyInt 60) = ''fov=60''
   \<and> build_request_url (n\<lparr>address := Some a, fov := 60\<rparr>) =
     Inr (BASE_URL @ ''?location='' @ quote a
          @ ''&size='' @ format_val (of_opt (size_param n))
          @ ''&key='' @ format_val (of_opt (api_key n))
          @ (case heading n of None \<Rightarrow> [] | Some h \<Rightarrow> ''&heading='' @ str_of_int h)
          @ ''&fov=60''
          @ (if pitch n \<noteq> 0 then ''&pitch='' @ str_of_int (pitch n) else [])
          @ (if radius n \<noteq> 50 then ''&radius='' @ str_of_int (radius n) else [])
          @ (if source n \<noteq> ''default'' then ''&source='' @ source n else [])
          @ (if return_error_code n then ''&return_error_code=true'' else []))"
proof -
  have s60: "str_of_int 60 = ''60''"
    by (simp add: str_of_int_def str_of_nat.simps digit_char_def)
  have 1: "entry (''fov'', PyInt 60) = ''fov=60''"
    by (simp add: entry_def s60)
  have 2: "map_sum id (filter (\<lambda>kv. fst kv = ''fov''))
        (quoted_params (n\<lparr>address := Some a, fov := 60\<rparr>)) = Inr [(''fov'', PyInt 60)]"
    by (simp add: quoted_params_eq split: option.split)
  show ?thesis
    using 1 2 by (simp add: quoted_params_eq build_request_url_eq s60)
qed

text \<open>
  Claim C10. \<open>validate_node\<close> does not look at \<open>heading\<close>, \<open>fov\<close>, \<open>pitch\<close> or
  \<open>radius\<close>: changing them never changes its result. A heading outside 0..360, a
  field of view outside 10..120, a pitch outside -90..90 and a radius outside 1..1000
  are each put into the dictionary as they are, and rendered as \<open>name=str(value)\<close>;
  the builder neither raises nor changes the value.
\<close>

theorem ranges_not_enforced:
  "validate_node (n\<lparr>heading := h, fov := f, pitch := p, radius := r\<rparr>) = validate_node n
   \<and> (\<forall>v. v < 0 \<or> 360 < v \<longrightarrow>
         (\<exists>ps. quoted_params (n\<lparr>address := Some a, heading := Some v\<rparr>) = Inr ps
               \<and> (''heading'', PyInt v) \<in> set ps))
   \<and> (\<forall>v. v < 10 \<or> 120 < v \<longrightarrow>
         (\<exists>ps. quoted_params (n\<lparr>address := Some a, fov := v\<rparr>) = Inr ps
               \<and> (''fov'', PyInt v) \<in> set ps))
   \<and> (\<forall>v. v < - 90 \<or> 90 < v \<longrightarrow>
         (\<exists>ps. quoted_params (n\<lparr>address := Some a, pitch := v\<rparr>) = Inr ps
               \<and> (''pitch'', PyInt v) \<in> set ps))
   \<and> (\<forall>v. v < 1 \<or> 1000 < v \<longrightarrow>
         (\<exists>ps. quoted_params (n\<lparr>address := Some a, radius := v\<rparr>) = Inr ps
               \<and> (''radius'', PyInt v) \<in> set ps))
   \<and> (\<forall>k v. entry (k, PyInt v) = k @ ''='' @ str_of_int v)"
proof -
  have "validate_node (n\<lparr>heading := h, fov := f, pitch := p, radius := r\<rparr>) = validate_node n"
    by (simp add: validate_node_def key_missing_def address_missing_def size_invalid_def)
  moreover have "\<forall>k v. entry (k, PyInt v) = k @ ''='' @ str_of_int v"
    by (simp add: entry_def)
  ultimately show ?thesis
    by (auto simp add: quoted_params_eq)
qed

theorem ranges_not_enforced_witness:
  "validate_node (default_node\<lparr>api_key := Some ''K'', address := Some ''a'',
                  fov := 5, pitch := 200, radius := 0\<rparr>) = None
   \<and> build_request_url (default_node\<lparr>api_key := Some ''K'', address := Some ''a'',
                  fov := 5, pitch := 200, radius := 0\<rparr>)
       = Inr ''https://maps.googleapis.com/maps/api/streetview?location=a&size=600x400&key=K&fov=5&pitch=200&radius=0&return_error_code=true''
   \<and> (''fov'', PyInt 5) \<in> set (projr (quoted_params (default_node\<lparr>address := Some ''a'', fov := 5\<rparr>)))
   \<and> (''pitch'', PyInt 200) \<in> set (projr (quoted_params (default_node\<lparr>address := Some ''a'', pitch := 200\<rparr>)))
   \<and> (''radius'', PyInt 0) \<in> set (projr (quoted_params (default_node\<lparr>address := Some ''a'', radius := 0\<rparr>)))
   \<and> (''heading'', PyInt 400) \<in> set (projr (quoted_params (default_node\<lparr>address := Some ''a'', heading := Some 400\<rparr>)))"
proof -
  let ?n = "default_node\<lparr>api_key := Some ''K'', address := Some ''a''\<rparr>"
  have v0: "validate_node ?n = None"
    by code_simp
  have v: "validate_node (?n\<lparr>heading := heading ?n, fov := 5, pitch := 200, radius := 0\<rparr>) = validate_node ?n"
    using ranges_not_enforced [where n = "?n" and h = "heading ?n" and f = 5 and p = 200 and r = 0 and a = "''a''"] by blast
  have u: "build_request_url (default_node\<lparr>api_key := Some ''K'', address := Some ''a'',
                  fov := 5, pitch := 200, radius := 0\<rparr>)
       = Inr ''https://maps.googleapis.com/maps/api/streetview?location=a&size=600x400&key=K&fov=5&pitch=200&radius=0&return_error_code=true''"
    by code_simp
  have f: "\<exists>ps. quoted_params (default_node\<lparr>address := Some ''a'', fov := 5\<rparr>) = Inr ps \<and> (''fov'', PyInt 5) \<in> set ps"
    using ranges_not_enforced [where n = default_node and h = None and f = 0 and p = 0 and r = 0 and a = "''a''"] by simp
  have p: "\<exists>ps. quoted_params (default_node\<lparr>address := Some ''a'', pitch := 200\<rparr>) = Inr ps \<and> (''pitch'', PyInt 200) \<in> set ps"
    using ranges_not_enforced [where n = default_node and h = None and f = 0 and p = 0 and r = 0 and a = "''a''"] by simp
  have r: "\<exists>ps. quoted_params (default_node\<lparr>address := Some ''a'', radius := 0\<rparr>) = Inr ps \<and> (''radius'', PyInt 0) \<in> set ps"
    using ranges_not_enforced [where n = default_node and h = None and f = 0 and p = 0 and r = 0 and a = "''a''"] by simp
  have h: "\<exists>ps. quoted_params (default_node\<lparr>address := Some ''a'', heading := Some 400\<rparr>) = Inr ps \<and> (''heading'', PyInt 400) \<in> set ps"
    using ranges_not_enforced [where n = default_node and h = None and f = 0 and p = 0 and r = 0 and a = "''a''"] by simp
  from v v0 have v': "validate_node (default_node\<lparr>api_key := Some ''K'', address := Some ''a'',
                  fov := 5, pitch := 200, radius := 0\<rparr>) = None"
    by (simp add: default_node_def)
  from f p r h u v' show ?thesis
    by auto
qed

section \<open>One execution of the node\<close>

lemma published_append: "published p (tr @ tr') = published p tr @ published p tr'"
  by (induction p tr rule: published.induct) auto

lemma handle_api_response_publishes_nothing:
  "published p (snd (handle_api_response ev r)) = []"
  by (simp add: handle_api_response_def Let_def)

lemma fetch_street_view_cases:
  "fetch_street_view ev n =
     (case build_request_url n of
        Inl e \<Rightarrow> on_raise e []
      | Inr url \<Rightarrow>
          (case http_get ev url of
             Inl e \<Rightarrow> on_raise e [HttpGet url]
           | Inr resp \<Rightarrow>
               (case fst (handle_api_response ev resp) of
                  Inl e \<Rightarrow> on_raise e (HttpGet url # snd (handle_api_response ev resp))
                | Inr image_url \<Rightarrow>
                    (Inr (ImageUrlArtifact image_url),
                     HttpGet url # snd (handle_api_response ev resp) @
                       [Publish ''street_view_image'' (ImageUrlArtifact image_url),
                        Publish ''status'' (Text (success_status n))]))))"
  by (simp add: fetch_street_view_def Let_def split: sum.split prod.split)

text \<open>What \<open>on_raise\<close> leaves behind, when the events before it published nothing to \<open>p\<close>.\<close>

lemma on_raise_status:
  assumes "published ''status'' tr = []"
  shows "case fst (on_raise e tr) of
           Inr artifact \<Rightarrow> False
         | Inl err \<Rightarrow>
             if is_Exception err
             then is_Exception e
                  \<and> err = RuntimeError (''Failed to fetch Street View image: '' @ exn_str e)
                  \<and> published ''status'' (snd (on_raise e tr))
                      = [Text (''Failed to fetch Street View image: '' @ exn_str e)]
                  \<and> last (snd (on_raise e tr))
                      = Publish ''status'' (Text (''Failed to fetch Street View image: '' @ exn_str e))
             else err = e \<and> published ''status'' (snd (on_raise e tr)) = []"
  using assms by (simp add: on_raise_def failure_def Let_def published_append)

lemma on_raise_image:
  "isl (fst (on_raise e tr))"
  "published ''street_view_image'' (snd (on_raise e tr)) = published ''street_view_image'' tr"
  by (simp_all add: on_raise_def failure_def Let_def published_append)

text \<open>
  Claim C5, as stated, fails when something outside \<open>Exception\<close> is raised inside the
  \<open>try\<close> block: \<open>except Exception\<close> does not catch a \<open>KeyboardInterrupt\<close> raised by
  the HTTP request, so it leaves \<open>fetch_street_view\<close> with no status published and no
  \<open>RuntimeError\<close>.
\<close>

theorem interrupt_publishes_no_status:
  "fst (process \<lparr>now = 17, http_get = (\<lambda>u. Inl KeyboardInterrupt),
                 save_static_file = (\<lambda>b f. Inr (''/static/'' @ f))\<rparr>
                (default_node\<lparr>address := Some ''a''\<rparr>)) = Inl KeyboardInterrupt
   \<and> published ''status''
        (snd (process \<lparr>now = 17, http_get = (\<lambda>u. Inl KeyboardInterrupt),
                       save_static_file = (\<lambda>b f. Inr (''/static/'' @ f))\<rparr>
                      (default_node\<lparr>address := Some ''a''\<rparr>))) = []"
  by (simp add: process_def fetch_street_view_cases build_request_url_eq on_raise_def)

text \<open>
  Claim C5, amended. When the execution returns the artifact, \<open>status\<close> has been
  published exactly once, with the success message ending in the address. When it
  raises an \<open>Exception\<close>, that is the \<open>RuntimeError\<close> whose message is "Failed to
  fetch Street View image: " followed by the text of the cause (itself an
  \<open>Exception\<close>); \<open>status\<close> has been published exactly once, with that same message,
  and its publication is the last thing done before the error is raised. When it
  raises anything else, no status has been published. So in every execution in which
  the HTTP client and the file store raise nothing outside \<open>Exception\<close>, \<open>status\<close>
  is published exactly once.
\<close>

theorem status_published_once:
  "(case fst (process ev n) of
      Inr artifact \<Rightarrow>
        (\<exists>a. address n = Some a
             \<and> published ''status'' (snd (process ev n))
                 = [Text (''Street View image fetched successfully for: '' @ a)])
    | Inl err \<Rightarrow>
        if is_Exception err
        then (\<exists>cause. is_Exception cause
               \<and> err = RuntimeError (''Failed to fetch Street View image: '' @ exn_str cause)
               \<and> published ''status'' (snd (process ev n))
                   = [Text (''Failed to fetch Street View image: '' @ exn_str cause)]
               \<and> last (snd (process ev n))
                   = Publish ''status'' (Text (''Failed to fetch Street View image: '' @ exn_str cause)))
        else published ''status'' (snd (process ev n)) = [])
   \<and> ((\<forall>url e. http_get ev url = Inl e \<longrightarrow> is_Exception e)
        \<and> (\<forall>b f e. save_static_file ev b f = Inl e \<longrightarrow> is_Exception e)
        \<longrightarrow> length (published ''status'' (snd (process ev n))) = 1)"
proof -
  let ?P = "\<lambda>r. (case fst r of
      Inr artifact \<Rightarrow>
        (\<exists>a. address n = Some a
             \<and> published ''status'' (snd r)
                 = [Text (''Street View image fetched successfully for: '' @ a)])
    | Inl err \<Rightarrow>
        if is_Exception err
        then (\<exists>cause. is_Exception cause
               \<and> err = RuntimeError (''Failed to fetch Street View image: '' @ exn_str cause)
               \<and> published ''status'' (snd r)
                   = [Text (''Failed to fetch Street View image: '' @ exn_str cause)]
               \<and> last (snd r)
                   = Publish ''status'' (Text (''Failed to fetch Street View image: '' @ exn_str cause)))
        else published ''status'' (snd r) = [])"
  have raise: "?P (on_raise e tr)" if "published ''status'' tr = []" for e tr
    using on_raise_status [OF that, of e]
    by (auto split: sum.splits if_splits)
  have P: "?P (process ev n)"
  proof (cases "build_request_url n")
    case (Inl e)
    then have eq: "process ev n = on_raise e []"
      by (simp add: process_def fetch_street_view_cases)
    show ?thesis
      unfolding eq by (rule raise) simp
  next
    case url: (Inr url)
    then obtain a where a: "address n = Some a"
      by (auto simp add: build_request_url_eq split: option.splits)
    show ?thesis
    proof (cases "http_get ev url")
      case (Inl e)
      with url have eq: "process ev n = on_raise e [HttpGet url]"
        by (simp add: process_def fetch_street_view_cases)
      show ?thesis
        unfolding eq by (rule raise) simp
    next
      case resp: (Inr resp)
      show ?thesis
      proof (cases "fst (handle_api_response ev resp)")
        case (Inl e)
        with url resp
        have eq: "process ev n = on_raise e (HttpGet url # snd (handle_api_response ev resp))"
          by (simp add: process_def fetch_street_view_cases)
        show ?thesis
          unfolding eq by (rule raise) (simp add: handle_api_response_publishes_nothing)
      next
        case (Inr image_url)
        with url resp a show ?thesis
          by (simp add: process_def fetch_street_view_cases published_append
              handle_api_response_publishes_nothing success_status_def of_opt_def)
      qed
    qed
  qed
  have once: "length (published ''status'' (snd (process ev n))) = 1"
    if h: "\<forall>url e. http_get ev url = Inl e \<longrightarrow> is_Exception e"
      and s: "\<forall>b f e. save_static_file ev b f = Inl e \<longrightarrow> is_Exception e"
  proof -
    have hr: "is_Exception e" if "fst (handle_api_response ev resp) = Inl e" for resp e
      using that s by (auto simp add: handle_api_response_def Let_def split: if_splits)
    have br: "is_Exception e" if "build_request_url n = Inl e" for e
      using that by (auto simp add: build_request_url_eq split: option.splits)
    show ?thesis
    proof (cases "build_request_url n")
      case (Inl e)
      with br [of e] show ?thesis
        by (simp add: process_def fetch_street_view_cases on_raise_def failure_def Let_def)
    next
      case url: (Inr url)
      show ?thesis
      proof (cases "http_get ev url")
        case (Inl e)
        with h have "is_Exception e"
          by blast
        with url Inl show ?thesis
          by (simp add: process_def fetch_street_view_cases on_raise_def failure_def Let_def)
      next
        case resp: (Inr resp)
        show ?thesis
        proof (cases "fst (handle_api_response ev resp)")
          case (Inl e)
          with hr have "is_Exception e"
            by blast
          with url resp Inl show ?thesis
            by (simp add: process_def fetch_street_view_cases on_raise_def failure_def Let_def
                published_append handle_api_response_publishes_nothing)
        next
          case (Inr image_url)
          with url resp show ?thesis
            by (simp add: process_def fetch_street_view_cases published_append
                handle_api_response_publishes_nothing)
        qed
      qed
    qed
  qed
  from P once show ?thesis
    by blast
qed

theorem status_published_once_witness:
  "length (published ''status''
       (snd (process \<lparr>now = 17, http_get = (\<lambda>u. Inr \<lparr>status_code = 200, content = ''X''\<rparr>),
                      save_static_file = (\<lambda>b f. Inr (''/static/'' @ f))\<rparr>
                     (default_node\<lparr>address := Some ''a''\<rparr>)))) = 1
   \<and> published ''status''
       (snd (process \<lparr>now = 17, http_get = (\<lambda>u. Inr \<lparr>status_code = 200, content = ''X''\<rparr>),
                      save_static_file = (\<lambda>b f. Inr (''/static/'' @ f))\<rparr>
                     (default_node\<lparr>address := Some ''a''\<rparr>)))
       = [Text ''Street View image fetched successfully for: a'']
   \<and> length (published ''status''
       (snd (process \<lparr>now = 17, http_get = (\<lambda>u. Inl (OtherError ''timed out'')),
                      save_static_file = (\<lambda>b f. Inr (''/static/'' @ f))\<rparr>
                     (default_node\<lparr>address := Some ''a''\<rparr>)))) = 1
   \<and> published ''status''
       (snd (process \<lparr>now = 17, http_get = (\<lambda>u. Inl (OtherError ''timed out'')),
                      save_static_file = (\<lambda>b f. Inr (''/static/'' @ f))\<rparr>
                     (default_node\<lparr>address := Some ''a''\<rparr>)))
       = [Text ''Failed to fetch Street View image: timed out'']"
proof -
  let ?n = "default_node\<lparr>address := Some ''a''\<rparr>"
  let ?ok = "\<lparr>now = 17, http_get = (\<lambda>u. Inr \<lparr>status_code = 200, content = ''X''\<rparr>),
              save_static_file = (\<lambda>b f. Inr (''/static/'' @ f))\<rparr>"
  let ?t = "\<lparr>now = 17, http_get = (\<lambda>u. Inl (OtherError ''timed out'')),
             save_static_file = (\<lambda>b f. Inr (''/static/'' @ f))\<rparr>"
  have h_ok: "(\<forall>url e. http_get ?ok url = Inl e \<longrightarrow> is_Exception e)
      \<and> (\<forall>b f e. save_static_file ?ok b f = Inl e \<longrightarrow> is_Exception e)"
    by simp
  have h_t: "(\<forall>url e. http_get ?t url = Inl e \<longrightarrow> is_Exception e)
      \<and> (\<forall>b f e. save_static_file ?t b f = Inl e \<longrightarrow> is_Exception e)"
    by auto
  from status_published_once [of ?ok ?n] h_ok
  have 1: "length (published ''status'' (snd (process ?ok ?n))) = 1"
    by blast
  from status_published_once [of ?t ?n] h_t
  have 2: "length (published ''status'' (snd (process ?t ?n))) = 1"
    by blast
  have 3: "published ''status'' (snd (process ?ok ?n))
       = [Text ''Street View image fetched successfully for: a'']"
    by (simp add: process_def fetch_street_view_cases build_request_url_eq default_node_def
        handle_api_response_def Let_def published_append success_status_def of_opt_def)
  have 4: "published ''status'' (snd (process ?t ?n))
       = [Text ''Failed to fetch Street View image: timed out'']"
    by (simp add: process_def fetch_street_view_cases build_request_url_eq default_node_def
        on_raise_def failure_def Let_def)
  from 1 2 3 4 show ?thesis
    by blast
qed

text \<open>
  Claim C6. \<open>street_view_image\<close> is published exactly when the execution succeeds
  (then once, with the artifact returned) and never when it raises. An execution
  whose HTTP request raises, or whose response has a status code other than 200,
  raises and publishes no image.
\<close>

theorem image_published_only_on_success:
  "published ''street_view_image'' (snd (process ev n))
     = (case fst (process ev n) of Inl err \<Rightarrow> [] | Inr artifact \<Rightarrow> [artifact])
   \<and> (\<forall>url e. build_request_url n = Inr url \<and> http_get ev url = Inl e \<longrightarrow>
         isl (fst (process ev n)) \<and> published ''street_view_image'' (snd (process ev n)) = [])
   \<and> (\<forall>url resp. build_request_url n = Inr url \<and> http_get ev url = Inr resp
                  \<and> status_code resp \<noteq> 200 \<longrightarrow>
         isl (fst (process ev n)) \<and> published ''street_view_image'' (snd (process ev n)) = [])"
proof -
  have bad: "isl (fst (handle_api_response ev resp))" if "status_code resp \<noteq> 200" for resp
    using that by (simp add: handle_api_response_def)
  have 1: "published ''street_view_image'' (snd (process ev n))
     = (case fst (process ev n) of Inl err \<Rightarrow> [] | Inr artifact \<Rightarrow> [artifact])"
    by (simp add: process_def fetch_street_view_cases on_raise_def failure_def Let_def
        published_append handle_api_response_publishes_nothing split: sum.split)
  have 2: "isl (fst (process ev n))" if "build_request_url n = Inr url" "http_get ev url = Inl e"
    for url e
    using that by (simp add: process_def fetch_street_view_cases on_raise_image)
  have 3: "isl (fst (process ev n))"
    if "build_request_url n = Inr url" "http_get ev url = Inr resp" "status_code resp \<noteq> 200"
    for url resp
  proof -
    from that(3) bad [of resp] obtain x where "fst (handle_api_response ev resp) = Inl x"
      by (auto simp add: isl_def)
    with that(1,2) show ?thesis
      by (simp add: process_def fetch_street_view_cases on_raise_image)
  qed
  have 4: "published ''street_view_image'' (snd (process ev n)) = []" if "isl (fst (process ev n))"
    using that 1 by (auto simp add: isl_def)
  show ?thesis
    using 1 2 3 4 by blast
qed

theorem image_published_only_on_success_witness:
  "isl (fst (process \<lparr>now = 17, http_get = (\<lambda>u. Inl (OtherError ''timed out'')),
                      save_static_file = (\<lambda>b f. Inr (''/static/'' @ f))\<rparr>
                     (default_node\<lparr>address := Some ''a''\<rparr>)))
   \<and> published ''street_view_image''
        (snd (process \<lparr>now = 17, http_get = (\<lambda>u. Inl (OtherError ''timed out'')),
                       save_static_file = (\<lambda>b f. Inr (''/static/'' @ f))\<rparr>
                      (default_node\<lparr>address := Some ''a''\<rparr>))) = []
   \<and> isl (fst (process \<lparr>now = 17, http_get = (\<lambda>u. Inr \<lparr>status_code = 418, content = ''X''\<rparr>),
                      save_static_file = (\<lambda>b f. Inr (''/static/'' @ f))\<rparr>
                     (default_node\<lparr>address := Some ''a''\<rparr>)))
   \<and> published ''street_view_image''
        (snd (process \<lparr>now = 17, http_get = (\<lambda>u. Inr \<lparr>status_code = 418, content = ''X''\<rparr>),
                       save_static_file = (\<lambda>b f. Inr (''/static/'' @ f))\<rparr>
                      (default_node\<lparr>address := Some ''a''\<rparr>))) = []"
proof -
  let ?n = "default_node\<lparr>address := Some ''a''\<rparr>"
  let ?t = "\<lparr>now = 17, http_get = (\<lambda>u. Inl (OtherError ''timed out'')),
             save_static_file = (\<lambda>b f. Inr (''/static/'' @ f))\<rparr>"
  let ?u = "\<lparr>now = 17, http_get = (\<lambda>u. Inr \<lparr>status_code = 418, content = ''X''\<rparr>),
             save_static_file = (\<lambda>b f. Inr (''/static/'' @ f))\<rparr>"
  obtain url where url: "build_request_url ?n = Inr url"
    by (simp add: build_request_url_eq)
  have t: "http_get ?t url = Inl (OtherError ''timed out'')"
    by simp
  have u: "http_get ?u url = Inr \<lparr>status_code = 418, content = ''X''\<rparr>"
          "status_code \<lparr>status_code = 418, content = ''X''\<rparr> \<noteq> 200"
    by simp_all
  from image_published_only_on_success [of ?t ?n] url t
  have 1: "isl (fst (process ?t ?n)) \<and> published ''street_view_image'' (snd (process ?t ?n)) = []"
    by blast
  from image_published_only_on_success [of ?u ?n] url u
  have 2: "isl (fst (process ?u ?n)) \<and> published ''street_view_image'' (snd (process ?u ?n)) = []"
    by blast
  from 1 2 show ?thesis
    by simp
qed

section \<open>The validator\<close>

text \<open>\<open>address.strip()\<close> is empty exactly when every character of the address is white space.\<close>

lemma strip_empty_iff: "strip a = [] \<longleftrightarrow> list_all uni_isspace a"
proof -
  have "dropWhile P (rev (dropWhile P xs)) = [] \<longleftrightarrow> list_all P xs" for P :: "char \<Rightarrow> bool" and xs
  proof
    assume "dropWhile P (rev (dropWhile P xs)) = []"
    then have all: "\<forall>x \<in> set (dropWhile P xs). P x"
      by (simp add: dropWhile_eq_Nil_conv)
    have "dropWhile P xs = []"
    proof (cases "dropWhile P xs")
      case (Cons y ys)
      then have "\<not> P y"
        using hd_dropWhile [of P xs] by simp
      with all Cons show ?thesis by simp
    qed simp
    then show "list_all P xs"
      by (simp add: dropWhile_eq_Nil_conv list_all_iff)
  next
    assume "list_all P xs"
    then have "dropWhile P xs = []"
      by (simp add: dropWhile_eq_Nil_conv list_all_iff)
    then show "dropWhile P (rev (dropWhile P xs)) = []"
      by (simp del: dropWhile_eq_Nil_conv)
  qed
  then show ?thesis
    by (simp add: strip_def)
qed

text \<open>
  Claim C8. \<open>validate_node\<close> makes its three checks one after the other, none
  depending on another: the result is \<open>None\<close> when no rule is violated, and otherwise
  the list holding, in this order, the key error if the key is absent or empty, the
  address error if the address is absent, empty or all white space, and the size
  error if the size is non-empty and fails \<open>_validate_size_format\<close>. The three errors
  are different values, so the list has one error per violated rule; with all three
  rules violated it has all three.
\<close>

theorem validate_node_checks_all:
  "validate_node n =
     (if \<not> key_missing n \<and> \<not> address_missing n \<and> \<not> size_invalid n then None
      else Some ((if key_missing n then [key_error] else [])
                 @ (if address_missing n then [address_error] else [])
                 @ (if size_invalid n then [size_error] else [])))
   \<and> distinct [key_error, address_error, size_error]
   \<and> key_missing n = (api_key n = None \<or> api_key n = Some [])
   \<and> address_missing n = (address n = None \<or> (\<exists>a. address n = Some a \<and> list_all uni_isspace a))
   \<and> size_invalid n = (\<exists>s. size_param n = Some s \<and> s \<noteq> [] \<and> \<not> validate_size_format s)
   \<and> validate_node (default_node\<lparr>api_key := None, address := Some '' '', size_param := Some ''abc''\<rparr>)
       = Some [key_error, address_error, size_error]"
proof -
  have 1: "validate_node n =
     (if \<not> key_missing n \<and> \<not> address_missing n \<and> \<not> size_invalid n then None
      else Some ((if key_missing n then [key_error] else [])
                 @ (if address_missing n then [address_error] else [])
                 @ (if size_invalid n then [size_error] else [])))"
    by (simp add: validate_node_def Let_def)
  have 2: "distinct [key_error, address_error, size_error]"
    by (simp add: key_error_def address_error_def size_error_def API_KEY_ENV_VAR_def)
  have 3: "key_missing n = (api_key n = None \<or> api_key n = Some [])"
    by (simp add: key_missing_def split: option.split)
  have 4: "address_missing n = (address n = None \<or> (\<exists>a. address n = Some a \<and> list_all uni_isspace a))"
    by (auto simp add: address_missing_def strip_empty_iff split: option.split)
  have 5: "size_invalid n = (\<exists>s. size_param n = Some s \<and> s \<noteq> [] \<and> \<not> validate_size_format s)"
    by (simp add: size_invalid_def split: option.split)
  have 6: "validate_node (default_node\<lparr>api_key := None, address := Some '' '', size_param := Some ''abc''\<rparr>)
       = Some [key_error, address_error, size_error]"
    by code_simp
  from 1 2 3 4 5 6 show ?thesis
    by blast
qed

text \<open>
  Claim C9. The size check accepts strings that do not have the shape digits, \<open>x\<close>,
  digits: "600X400" (the check lower-cases its input), " 600x400" and "+600x400"
  (\<open>int()\<close> accepts surrounding white space and a sign). \<open>validate_node\<close> reports no
  error for such a size.
\<close>

theorem size_check_tolerant:
  "validate_size_format ''600X400'' \<and> \<not> spec_size_pattern ''600X400''
   \<and> validate_size_format '' 600x400'' \<and> \<not> spec_size_pattern '' 600x400''
   \<and> validate_size_format ''+600x400'' \<and> \<not> spec_size_pattern ''+600x400''
   \<and> lower ''600X400'' = ''600x400''
   \<and> py_int '' 600'' = Some 600 \<and> py_int ''+600'' = Some 600
   \<and> validate_node (default_node\<lparr>api_key := Some ''K'', address := Some ''a'',
                                   size_param := Some ''600X400''\<rparr>) = None"
  by code_simp

section \<open>The size check\<close>
































end
